theory Spec2Isabelle
  imports Main "HOL-Library.Word" "HOL-Library.AList"
begin

unbundle bit_operations_syntax

section \<open>Python values used by the MCP server manager\<close>

text \<open>
  A Python \<open>str\<close> is represented by the bytes of its UTF-8 encoding, so that
  \<open>s.encode("utf-8")\<close> is the identity and string concatenation is list append.

  A Python \<open>dict\<close> keeps its keys in insertion order and the manager iterates over
  its dictionaries, so a dictionary is an association list. A dictionary of the
  program never holds a key twice (\<open>pydict_ok\<close>).
\<close>

type_synonym ('k, 'v) pydict = "('k \<times> 'v) list"

definition pydict_ok :: "('k, 'v) pydict \<Rightarrow> bool" where
  "pydict_ok d = distinct (map fst d)"

text \<open>\<open>k in d\<close>\<close>
definition dict_contains :: "'k \<Rightarrow> ('k, 'v) pydict \<Rightarrow> bool" where
  "dict_contains k d = (k \<in> set (map fst d))"

text \<open>\<open>d[k]\<close> read through \<open>map_of\<close>; \<open>d[k] = v\<close>: an existing key keeps its
  position, a new key goes last.\<close>
definition dict_setitem :: "'k \<Rightarrow> 'v \<Rightarrow> ('k, 'v) pydict \<Rightarrow> ('k, 'v) pydict" where
  "dict_setitem k v d = AList.update k v d"

text \<open>\<open>a | b\<close>: a copy of \<open>a\<close> updated with every item of \<open>b\<close> in order.\<close>
definition dict_union :: "('k, 'v) pydict \<Rightarrow> ('k, 'v) pydict \<Rightarrow> ('k, 'v) pydict" where
  "dict_union a b = fold (\<lambda>kv d. dict_setitem (fst kv) (snd kv) d) b a"

definition dict_keys :: "('k, 'v) pydict \<Rightarrow> 'k list" where
  "dict_keys d = map fst d"

definition dict_values :: "('k, 'v) pydict \<Rightarrow> 'v list" where
  "dict_values d = map snd d"

text \<open>
  The exceptions the manager raises or lets through. \<open>KeyError\<close> is Python's, raised
  by \<open>del d[k]\<close> on a missing key. \<open>InvalidConfiguration\<close> is what
  \<open>validate_mcp_server_name\<close> raises. The two \<open>ValueError\<close>s of \<open>call_tool\<close> are
  told apart by their message: \<open>ToolNotFound\<close> ("Tool ... not found") and
  \<open>PrefixMismatch\<close> ("server prefix mismatch: expected ..., got ..."). \<open>UpstreamError\<close>
  is any \<open>Exception\<close> of the client; \<open>CancelledError\<close> is asyncio's, a
  \<open>BaseException\<close> that \<open>except Exception\<close> does not catch.
\<close>

datatype error =
    InvalidConfiguration string
  | KeyError string
  | ToolNotFound string
  | PrefixMismatch string string
  | UpstreamError string
  | CancelledError

fun is_Exception :: "error \<Rightarrow> bool" where
  "is_Exception CancelledError = False"
| "is_Exception _ = True"

text \<open>\<open>del d[k]\<close>\<close>
definition dict_delitem :: "string \<Rightarrow> (string, 'v) pydict \<Rightarrow> error + (string, 'v) pydict" where
  "dict_delitem k d = (if dict_contains k d then Inr (AList.delete k d) else Inl (KeyError k))"

text \<open>Truthiness of an optional string, and \<open>a or b\<close> on optional strings.\<close>
fun truthy :: "string option \<Rightarrow> bool" where
  "truthy None = False"
| "truthy (Some s) = (s \<noteq> [])"

definition py_or :: "string option \<Rightarrow> string option \<Rightarrow> string option" where
  "py_or a b = (if truthy a then a else b)"

section \<open>SHA-256 (hashlib.sha256, FIPS 180-4)\<close>

type_synonym u32 = "32 word"

definition rotr :: "nat \<Rightarrow> u32 \<Rightarrow> u32" where
  "rotr n x = (drop_bit n x) OR (push_bit (32 - n) x)"

definition Ch :: "u32 \<Rightarrow> u32 \<Rightarrow> u32 \<Rightarrow> u32" where
  "Ch x y z = (x AND y) XOR (NOT x AND z)"

definition Maj :: "u32 \<Rightarrow> u32 \<Rightarrow> u32 \<Rightarrow> u32" where
  "Maj x y z = (x AND y) XOR (x AND z) XOR (y AND z)"

definition bsig0 :: "u32 \<Rightarrow> u32" where
  "bsig0 x = rotr 2 x XOR rotr 13 x XOR rotr 22 x"

definition bsig1 :: "u32 \<Rightarrow> u32" where
  "bsig1 x = rotr 6 x XOR rotr 11 x XOR rotr 25 x"

definition ssig0 :: "u32 \<Rightarrow> u32" where
  "ssig0 x = rotr 7 x XOR rotr 18 x XOR drop_bit 3 x"

definition ssig1 :: "u32 \<Rightarrow> u32" where
  "ssig1 x = rotr 17 x XOR rotr 19 x XOR drop_bit 10 x"

text \<open>The 64 round constants, eight to a row.\<close>
definition K256_row0 :: "u32 list" where
  "K256_row0 = [0x428a2f98, 0x71374491, 0xb5c0fbcf, 0xe9b5dba5, 0x3956c25b, 0x59f111f1, 0x923f82a4, 0xab1c5ed5]"

definition K256_row1 :: "u32 list" where
  "K256_row1 = [0xd807aa98, 0x12835b01, 0x243185be, 0x550c7dc3, 0x72be5d74, 0x80deb1fe, 0x9bdc06a7, 0xc19bf174]"

definition K256_row2 :: "u32 list" where
  "K256_row2 = [0xe49b69c1, 0xefbe4786, 0x0fc19dc6, 0x240ca1cc, 0x2de92c6f, 0x4a7484aa, 0x5cb0a9dc, 0x76f988da]"

definition K256_row3 :: "u32 list" where
  "K256_row3 = [0x983e5152, 0xa831c66d, 0xb00327c8, 0xbf597fc7, 0xc6e00bf3, 0xd5a79147, 0x06ca6351, 0x14292967]"

definition K256_row4 :: "u32 list" where
  "K256_row4 = [0x27b70a85, 0x2e1b2138, 0x4d2c6dfc, 0x53380d13, 0x650a7354, 0x766a0abb, 0x81c2c92e, 0x92722c85]"

definition K256_row5 :: "u32 list" where
  "K256_row5 = [0xa2bfe8a1, 0xa81a664b, 0xc24b8b70, 0xc76c51a3, 0xd192e819, 0xd6990624, 0xf40e3585, 0x106aa070]"

definition K256_row6 :: "u32 list" where
  "K256_row6 = [0x19a4c116, 0x1e376c08, 0x2748774c, 0x34b0bcb5, 0x391c0cb3, 0x4ed8aa4a, 0x5b9cca4f, 0x682e6ff3]"

definition K256_row7 :: "u32 list" where
  "K256_row7 = [0x748f82ee, 0x78a5636f, 0x84c87814, 0x8cc70208, 0x90befffa, 0xa4506ceb, 0xbef9a3f7, 0xc67178f2]"

definition K256 :: "u32 list" where
  "K256 = K256_row0 @ K256_row1 @ K256_row2 @ K256_row3 @ K256_row4 @ K256_row5 @ K256_row6 @ K256_row7"

text \<open>The message schedule: 16 words extended to 64, the newest word last.\<close>
primrec schedule :: "nat \<Rightarrow> u32 list \<Rightarrow> u32 list" where
  "schedule 0 w = w"
| "schedule (Suc n) w =
     schedule n (w @ [ssig1 (w ! (length w - 2)) + w ! (length w - 7)
                      + ssig0 (w ! (length w - 15)) + w ! (length w - 16)])"

type_synonym regs = "u32 \<times> u32 \<times> u32 \<times> u32 \<times> u32 \<times> u32 \<times> u32 \<times> u32"

fun round256 :: "regs \<Rightarrow> u32 \<times> u32 \<Rightarrow> regs" where
  "round256 (a, b, c, d, e, f, g, h) (k, w) =
     (let t1 = h + bsig1 e + Ch e f g + k + w;
          t2 = bsig0 a + Maj a b c
      in (t1 + t2, a, b, c, d + t1, e, f, g))"

fun compress :: "regs \<Rightarrow> u32 list \<Rightarrow> regs" where
  "compress (a, b, c, d, e, f, g, h) blk =
     (case foldl round256 (a, b, c, d, e, f, g, h) (zip K256 (schedule 48 blk)) of
        (a', b', c', d', e', f', g', h') \<Rightarrow>
          (a + a', b + b', c + c', d + d', e + e', f + f', g + g', h + h'))"

definition be32 :: "8 word list \<Rightarrow> u32" where
  "be32 bs = foldl (\<lambda>acc b. push_bit 8 acc OR ucast b) 0 bs"

fun chunks :: "nat \<Rightarrow> 'a list \<Rightarrow> 'a list list" where
  "chunks n [] = []"
| "chunks n (x # xs) =
     (if n = 0 then [x # xs] else take n (x # xs) # chunks n (drop n (x # xs)))"

text \<open>Padding: the byte 0x80, zero bytes up to 56 modulo 64, the bit length on 8 bytes.\<close>
definition pad :: "8 word list \<Rightarrow> 8 word list" where
  "pad m = (let l = length m;
                 z = (55 + 64 - l mod 64) mod 64;
                 bits = (of_nat (8 * l) :: 64 word)
            in m @ [0x80] @ replicate z 0
                 @ map (\<lambda>i. ucast (drop_bit (8 * (7 - i)) bits)) [0..<8])"

definition sha256 :: "8 word list \<Rightarrow> regs" where
  "sha256 m =
     foldl compress
       (0x6a09e667, 0xbb67ae85, 0x3c6ef372, 0xa54ff53a,
        0x510e527f, 0x9b05688c, 0x1f83d9ab, 0x5be0cd19)
       (map (\<lambda>blk. map be32 (chunks 4 blk)) (chunks 64 (pad m)))"

definition hexchar :: "nat \<Rightarrow> char" where
  "hexchar n = (''0123456789abcdef'') ! n"

definition hex32 :: "u32 \<Rightarrow> string" where
  "hex32 w = map (\<lambda>i. hexchar (unat (drop_bit (4 * (7 - i)) w AND 15))) [0..<8]"

fun hexdigest :: "regs \<Rightarrow> string" where
  "hexdigest (a, b, c, d, e, f, g, h) = concat (map hex32 [a, b, c, d, e, f, g, h])"

definition encode_utf8 :: "string \<Rightarrow> 8 word list" where
  "encode_utf8 s = map (\<lambda>c. of_nat (of_char c)) s"

section \<open>The records of the manager\<close>

text \<open>
  \<open>MCPInfo\<close>, \<open>MCPServer\<close>, \<open>LiteLLM_MCPServerTable\<close>, \<open>MCPStdioConfig\<close>,
  \<open>MCPClient\<close>, \<open>MCPTool\<close> and \<open>MCPCallToolRequestParams\<close> are declared outside
  this file; the records hold the fields the manager reads and writes. Fields of two
  records that share a name carry a prefix (\<open>db_\<close> for the database row, \<open>cfg_\<close> for
  a configuration entry). Opaque values (cost info, schemas) are strings.
\<close>

record MCPInfo =
  server_name :: "string option"
  description :: "string option"
  mcp_server_cost_info :: "string option"

record MCPServer =
  server_id :: string
  name :: string
  url :: "string option"
  transport :: string
  spec_version :: string
  auth_type :: "string option"
  authentication_token :: "string option"
  mcp_info :: MCPInfo
  command :: "string option"
  args :: "string list"
  env :: "(string, string) pydict option"

text \<open>An entry of the configuration mapping; \<open>None\<close> is a key that is absent.\<close>
record server_config =
  cfg_url :: "string option"
  cfg_command :: "string option"
  cfg_args :: "string list option"
  cfg_env :: "(string, string) pydict option"
  cfg_transport :: "string option"
  cfg_spec_version :: "string option"
  cfg_auth_type :: "string option"
  cfg_description :: "string option"
  cfg_mcp_info :: "MCPInfo option"

text \<open>The \<open>env\<close> column of a database row: a JSON string or a dictionary.\<close>
datatype env_data = EnvStr string | EnvDict "(string, string) pydict"

record LiteLLM_MCPServerTable =
  db_server_id :: string
  db_alias :: "string option"
  db_url :: "string option"
  db_transport :: string
  db_spec_version :: string
  db_auth_type :: "string option"
  db_description :: "string option"
  db_mcp_info :: "MCPInfo option"
  db_command :: "string option"
  db_args :: "string list option"
  db_env :: "env_data option"

record MCPServerManager =
  registry :: "(string, MCPServer) pydict"
  config_mcp_servers :: "(string, MCPServer) pydict"
  tool_name_to_mcp_server_name_mapping :: "(string, string) pydict"

definition MCPServerManager_init :: MCPServerManager where
  "MCPServerManager_init =
     \<lparr>registry = [], config_mcp_servers = [], tool_name_to_mcp_server_name_mapping = []\<rparr>"

text \<open>Both partitions are dictionaries.\<close>
definition manager_ok :: "MCPServerManager \<Rightarrow> bool" where
  "manager_ok m = (pydict_ok (registry m) \<and> pydict_ok (config_mcp_servers m))"

text \<open>The values of the enumerations \<open>MCPTransport\<close> and \<open>MCPSpecVersion\<close>.\<close>
definition MCPTransport_http :: string where "MCPTransport_http = ''http''"
definition MCPTransport_sse :: string where "MCPTransport_sse = ''sse''"
definition MCPTransport_stdio :: string where "MCPTransport_stdio = ''stdio''"
definition MCPSpecVersion_mar_2025 :: string where "MCPSpecVersion_mar_2025 = ''2025-03-26''"

text \<open>
  The two enumerations mix \<open>str\<close> into \<open>enum.Enum\<close>: a member compares equal to its
  value, and an f-string renders it through \<open>format()\<close>, which since Python 3.11 is
  the \<open>str()\<close> of the member, its qualified name (earlier interpreters render the
  value). \<open>load_servers_from_config\<close> passes the members as defaults, so the id of
  an entry without \<open>transport\<close> or \<open>spec_version\<close> is the hash of these renderings.
\<close>
definition MCPTransport_http_formatted :: string where
  "MCPTransport_http_formatted = ''MCPTransport.http''"
definition MCPSpecVersion_mar_2025_formatted :: string where
  "MCPSpecVersion_mar_2025_formatted = ''MCPSpecVersion.mar_2025''"

text \<open>
  The helpers of \<open>mcp_server.utils\<close>, which the manager imports: their code is not
  part of the sources, so every operation takes them as a parameter.
  \<open>validate_mcp_server_name\<close> returns the exception it raises, if any.
  \<open>get_server_name_prefix_tool_mcp\<close> returns the tool name without its prefix and
  the server name of the prefix; the manager tests the latter by truthiness, so an
  absent prefix is the empty string.
\<close>

record utils =
  validate_mcp_server_name :: "string \<Rightarrow> error option"
  normalize_server_name :: "string \<Rightarrow> string"
  add_server_prefix_to_tool_name :: "string \<Rightarrow> string \<Rightarrow> string"
  get_server_name_prefix_tool_mcp :: "string \<Rightarrow> string \<times> string"
  is_tool_name_prefixed :: "string \<Rightarrow> bool"

section \<open>The registry\<close>

text \<open>\<open>get_registry\<close>: \<open>self.config_mcp_servers | self.registry\<close>\<close>
definition get_registry :: "MCPServerManager \<Rightarrow> (string, MCPServer) pydict" where
  "get_registry m = dict_union (config_mcp_servers m) (registry m)"

text \<open>\<open>_generate_stable_server_id\<close>; \<open>auth_type or ''\<close> is the empty string for
  \<open>None\<close>.\<close>
definition params_string :: "string \<Rightarrow> string \<Rightarrow> string \<Rightarrow> string \<Rightarrow> string option \<Rightarrow> string" where
  "params_string sname surl stransport sspec sauth =
     sname @ ''|'' @ surl @ ''|'' @ stransport @ ''|'' @ sspec @ ''|''
       @ (case sauth of None \<Rightarrow> [] | Some a \<Rightarrow> a)"

definition generate_stable_server_id ::
  "string \<Rightarrow> string \<Rightarrow> string \<Rightarrow> string \<Rightarrow> string option \<Rightarrow> string" where
  "generate_stable_server_id sname surl stransport sspec sauth =
     take 32 (hexdigest (sha256 (encode_utf8 (params_string sname surl stransport sspec sauth))))"

text \<open>\<open>x or ""\<close>, \<open>x or []\<close>, \<open>x or {}\<close> on an optional entry.\<close>
definition or_empty :: "'a list option \<Rightarrow> 'a list" where
  "or_empty x = (case x of None \<Rightarrow> [] | Some v \<Rightarrow> v)"

definition get_default :: "'a option \<Rightarrow> 'a \<Rightarrow> 'a" where
  "get_default x d = (case x of None \<Rightarrow> d | Some v \<Rightarrow> v)"

definition new_MCPInfo :: MCPInfo where
  "new_MCPInfo = \<lparr>server_name = None, description = None, mcp_server_cost_info = None\<rparr>"

text \<open>The server that one iteration of \<open>load_servers_from_config\<close> builds. A
  \<open>transport\<close> or \<open>spec_version\<close> given in the configuration is a plain string,
  rendered as itself; an absent one is the enumeration member, stored as its value and
  hashed as its rendering.\<close>
definition config_server :: "string \<Rightarrow> server_config \<Rightarrow> MCPServer" where
  "config_server sname c =
     \<lparr>server_id = generate_stable_server_id sname (or_empty (cfg_url c))
                    (get_default (cfg_transport c) MCPTransport_http_formatted)
                    (get_default (cfg_spec_version c) MCPSpecVersion_mar_2025_formatted)
                    (cfg_auth_type c),
      name = sname,
      url = Some (or_empty (cfg_url c)),
      transport = get_default (cfg_transport c) MCPTransport_http,
      spec_version = get_default (cfg_spec_version c) MCPSpecVersion_mar_2025,
      auth_type = cfg_auth_type c,
      authentication_token = None,
      mcp_info = (get_default (cfg_mcp_info c) new_MCPInfo)
                   \<lparr>server_name := Some sname, description := cfg_description c\<rparr>,
      command = Some (or_empty (cfg_command c)),
      args = or_empty (cfg_args c),
      env = Some (or_empty (cfg_env c))\<rparr>"

text \<open>
  \<open>load_servers_from_config\<close>: the loop over the items of the configuration.
  \<open>validate_mcp_server_name\<close> is called with no handler around it, so its
  exception leaves the loop and the method; what was stored before stays stored. The
  result is the exception, if any, and the manager. The warm-up that the method
  schedules last is a detached task and is not part of the call.
\<close>
fun load_servers_from_config ::
  "utils \<Rightarrow> (string, server_config) pydict \<Rightarrow> MCPServerManager \<Rightarrow> error option \<times> MCPServerManager" where
  "load_servers_from_config U [] m = (None, m)"
| "load_servers_from_config U ((sname, c) # rest) m =
     (case validate_mcp_server_name U sname of
        Some e \<Rightarrow> (Some e, m)
      | None \<Rightarrow>
          load_servers_from_config U rest
            (m\<lparr>config_mcp_servers :=
                 dict_setitem (server_id (config_server sname c)) (config_server sname c)
                   (config_mcp_servers m)\<rparr>))"

datatype log_record = Debug string | Warning string

text \<open>\<open>x in self.get_registry()\<close> for an optional \<open>x\<close>: \<open>None\<close> is no key.\<close>
definition opt_in_registry :: "string option \<Rightarrow> MCPServerManager \<Rightarrow> bool" where
  "opt_in_registry k m = (case k of None \<Rightarrow> False | Some a \<Rightarrow> dict_contains a (get_registry m))"

text \<open>
  \<open>remove_server\<close>: membership is tested in \<open>get_registry()\<close>, the deletion is
  \<open>del self.registry[...]\<close>. The result is the exception, or the manager and the
  message logged.
\<close>
definition remove_server ::
  "LiteLLM_MCPServerTable \<Rightarrow> MCPServerManager \<Rightarrow> error + (MCPServerManager \<times> log_record)" where
  "remove_server mcp_server m =
     (if opt_in_registry (db_alias mcp_server) m then
        (case dict_delitem (the (db_alias mcp_server)) (registry m) of
           Inl e \<Rightarrow> Inl e
         | Inr r \<Rightarrow> Inr (m\<lparr>registry := r\<rparr>, Debug (the (db_alias mcp_server))))
      else if dict_contains (db_server_id mcp_server) (get_registry m) then
        (case dict_delitem (db_server_id mcp_server) (registry m) of
           Inl e \<Rightarrow> Inl e
         | Inr r \<Rightarrow> Inr (m\<lparr>registry := r\<rparr>, Debug (db_server_id mcp_server)))
      else Inr (m, Warning (db_server_id mcp_server)))"

text \<open>\<open>_deserialize_env_dict\<close>; \<open>json_loads\<close> is \<open>json.loads\<close>, \<open>None\<close> where it
  raises \<open>JSONDecodeError\<close>.\<close>
definition deserialize_env_dict ::
  "(string \<Rightarrow> (string, string) pydict option) \<Rightarrow> env_data option \<Rightarrow> (string, string) pydict option" where
  "deserialize_env_dict json_loads env_d =
     (case env_d of
        None \<Rightarrow> None
      | Some (EnvStr s) \<Rightarrow> (if s = [] then None else json_loads s)
      | Some (EnvDict d) \<Rightarrow> (if d = [] then None else Some d))"

text \<open>\<open>mcp_server.alias or mcp_server.server_id\<close>\<close>
definition alias_or_id :: "LiteLLM_MCPServerTable \<Rightarrow> string" where
  "alias_or_id mcp_server =
     (if truthy (db_alias mcp_server) then the (db_alias mcp_server) else db_server_id mcp_server)"

definition db_server ::
  "(string \<Rightarrow> (string, string) pydict option) \<Rightarrow> LiteLLM_MCPServerTable \<Rightarrow> MCPServer" where
  "db_server json_loads mcp_server =
     \<lparr>server_id = db_server_id mcp_server,
      name = alias_or_id mcp_server,
      url = db_url mcp_server,
      transport = db_transport mcp_server,
      spec_version = db_spec_version mcp_server,
      auth_type = db_auth_type mcp_server,
      authentication_token = None,
      mcp_info = \<lparr>server_name = Some (alias_or_id mcp_server),
                  description = db_description mcp_server,
                  mcp_server_cost_info =
                    mcp_server_cost_info (get_default (db_mcp_info mcp_server) new_MCPInfo)\<rparr>,
      command = db_command mcp_server,
      args = or_empty (db_args mcp_server),
      env = deserialize_env_dict json_loads (db_env mcp_server)\<rparr>"

text \<open>\<open>add_update_server\<close>\<close>
definition add_update_server ::
  "(string \<Rightarrow> (string, string) pydict option) \<Rightarrow> LiteLLM_MCPServerTable \<Rightarrow> MCPServerManager
     \<Rightarrow> MCPServerManager" where
  "add_update_server json_loads mcp_server m =
     (if \<not> dict_contains (db_server_id mcp_server) (get_registry m) then
        m\<lparr>registry := dict_setitem (db_server_id mcp_server) (db_server json_loads mcp_server)
                         (registry m)\<rparr>
      else m)"

text \<open>\<open>get_allowed_mcp_servers\<close>; \<open>allowed_of\<close> is
  \<open>MCPRequestHandler.get_allowed_mcp_servers\<close>.\<close>
definition get_allowed_mcp_servers ::
  "('auth \<Rightarrow> string list) \<Rightarrow> 'auth \<Rightarrow> MCPServerManager \<Rightarrow> string list" where
  "get_allowed_mcp_servers allowed_of user_api_key_auth m =
     (if length (allowed_of user_api_key_auth) > 0 then allowed_of user_api_key_auth
      else dict_keys (get_registry m))"

text \<open>\<open>get_mcp_server_by_id\<close>: the first server of the registry with this id.\<close>
definition get_mcp_server_by_id :: "MCPServerManager \<Rightarrow> string \<Rightarrow> MCPServer option" where
  "get_mcp_server_by_id m sid = find (\<lambda>s. server_id s = sid) (dict_values (get_registry m))"

section \<open>Upstream clients\<close>

record MCPStdioConfig =
  stdio_command :: string
  stdio_args :: "string list"
  stdio_env :: "(string, string) pydict"

text \<open>The arguments \<open>MCPClient\<close> is built with; the timeout (60.0) is in seconds.\<close>
record MCPClient =
  server_url :: string
  transport_type :: string
  client_auth_type :: "string option"
  auth_value :: "string option"
  timeout :: nat
  stdio_config :: "MCPStdioConfig option"

record MCPTool =
  tool_name :: string
  tool_description :: "string option"
  inputSchema :: string

record MCPCallToolRequestParams =
  params_name :: string
  arguments :: "(string, string) pydict"

text \<open>\<open>_create_mcp_client\<close>; \<open>server.args\<close> is a list in every server the manager
  builds, so \<open>server.args is not None\<close> holds.\<close>
definition create_mcp_client :: "MCPServer \<Rightarrow> string option \<Rightarrow> MCPClient" where
  "create_mcp_client server mcp_auth_header =
     (let tr = (if transport server = [] then MCPTransport_sse else transport server) in
      if tr = MCPTransport_stdio then
        \<lparr>server_url = [],
         transport_type = tr,
         client_auth_type = auth_type server,
         auth_value = py_or mcp_auth_header (authentication_token server),
         timeout = 60,
         stdio_config =
           (if truthy (command server)
            then Some \<lparr>stdio_command = the (command server), stdio_args = args server,
                       stdio_env = or_empty (env server)\<rparr>
            else None)\<rparr>
      else
        \<lparr>server_url = or_empty (url server),
         transport_type = tr,
         client_auth_type = auth_type server,
         auth_value = py_or mcp_auth_header (authentication_token server),
         timeout = 60,
         stdio_config = None\<rparr>)"

text \<open>
  What the client's \<open>list_tools\<close> does for a given client: it returns the tools, raises
  an \<open>Exception\<close>, or is cancelled.
\<close>
datatype 'a outcome = Returned 'a | Raised string | WasCancelled

text \<open>The tool that \<open>_get_tools_from_server\<close> builds from a tool of the server: the
  same tool under its prefixed name.\<close>
definition prefixed_tool :: "utils \<Rightarrow> MCPServer \<Rightarrow> MCPTool \<Rightarrow> MCPTool" where
  "prefixed_tool U server tool =
     \<lparr>tool_name = add_server_prefix_to_tool_name U (tool_name tool) (name server),
      tool_description = tool_description tool,
      inputSchema = inputSchema tool\<rparr>"

text \<open>The loop of \<open>_get_tools_from_server\<close> over the tools returned: the prefixed
  tools, and the reverse index with the original and the prefixed name of each tool.\<close>
fun prefix_tools ::
  "utils \<Rightarrow> MCPServer \<Rightarrow> MCPTool list \<Rightarrow> MCPTool list \<Rightarrow> (string, string) pydict
     \<Rightarrow> MCPTool list \<times> (string, string) pydict" where
  "prefix_tools U server [] prefixed_tools mapping = (prefixed_tools, mapping)"
| "prefix_tools U server (tool # tools) prefixed_tools mapping =
     prefix_tools U server tools (prefixed_tools @ [prefixed_tool U server tool])
       (dict_setitem (tool_name (prefixed_tool U server tool)) (name server)
          (dict_setitem (tool_name tool) (name server) mapping))"

text \<open>
  \<open>_get_tools_from_server\<close>: an \<open>Exception\<close> of the listing is caught by the outer
  handler, which returns the empty list; \<open>asyncio.CancelledError\<close> is re-raised and
  is no \<open>Exception\<close>, so it leaves the method.
\<close>
definition get_tools_from_server ::
  "utils \<Rightarrow> (MCPClient \<Rightarrow> MCPTool list outcome) \<Rightarrow> MCPServer \<Rightarrow> string option
     \<Rightarrow> MCPServerManager \<Rightarrow> (error + MCPTool list) \<times> MCPServerManager" where
  "get_tools_from_server U client_list_tools server mcp_auth_header m =
     (case client_list_tools (create_mcp_client server mcp_auth_header) of
        Returned tools \<Rightarrow>
          (case prefix_tools U server tools [] (tool_name_to_mcp_server_name_mapping m) of
             (prefixed_tools, mapping) \<Rightarrow>
               (Inr prefixed_tools, m\<lparr>tool_name_to_mcp_server_name_mapping := mapping\<rparr>))
      | Raised e \<Rightarrow> (Inr [], m)
      | WasCancelled \<Rightarrow> (Inl CancelledError, m))"

text \<open>The loop of \<open>list_tools\<close> over the allowed server ids.\<close>
fun list_tools_loop ::
  "utils \<Rightarrow> (MCPClient \<Rightarrow> MCPTool list outcome) \<Rightarrow> string option \<Rightarrow> string list
     \<Rightarrow> MCPTool list \<Rightarrow> MCPServerManager \<Rightarrow> (error + MCPTool list) \<times> MCPServerManager" where
  "list_tools_loop U client_list_tools mcp_auth_header [] list_tools_result m =
     (Inr list_tools_result, m)"
| "list_tools_loop U client_list_tools mcp_auth_header (sid # rest) list_tools_result m =
     (case get_mcp_server_by_id m sid of
        None \<Rightarrow> list_tools_loop U client_list_tools mcp_auth_header rest list_tools_result m
      | Some server \<Rightarrow>
          (case get_tools_from_server U client_list_tools server mcp_auth_header m of
             (Inr tools, m') \<Rightarrow>
               list_tools_loop U client_list_tools mcp_auth_header rest
                 (list_tools_result @ tools) m'
           | (Inl e, m') \<Rightarrow>
               (if is_Exception e
                then list_tools_loop U client_list_tools mcp_auth_header rest
                       list_tools_result m'
                else (Inl e, m'))))"

text \<open>\<open>list_tools\<close>\<close>
definition list_tools ::
  "utils \<Rightarrow> ('auth \<Rightarrow> string list) \<Rightarrow> (MCPClient \<Rightarrow> MCPTool list outcome) \<Rightarrow> 'auth
     \<Rightarrow> string option \<Rightarrow> MCPServerManager \<Rightarrow> (error + MCPTool list) \<times> MCPServerManager" where
  "list_tools U allowed_of client_list_tools user_api_key_auth mcp_auth_header m =
     list_tools_loop U client_list_tools mcp_auth_header
       (get_allowed_mcp_servers allowed_of user_api_key_auth m) [] m"

text \<open>
  What one allowed id is expected to add to the listing: nothing when the id resolves
  to no server or the listing of its server raises, the prefixed tools otherwise.
\<close>
definition upstream_tools ::
  "utils \<Rightarrow> (MCPClient \<Rightarrow> MCPTool list outcome) \<Rightarrow> string option \<Rightarrow> MCPServerManager
     \<Rightarrow> string \<Rightarrow> MCPTool list" where
  "upstream_tools U client_list_tools mcp_auth_header m sid =
     (case get_mcp_server_by_id m sid of
        None \<Rightarrow> []
      | Some server \<Rightarrow>
          (case client_list_tools (create_mcp_client server mcp_auth_header) of
             Returned tools \<Rightarrow> map (prefixed_tool U server) tools
           | Raised e \<Rightarrow> []
           | WasCancelled \<Rightarrow> []))"

section \<open>Routing a call\<close>

text \<open>The first server of the registry whose normalized name is that of \<open>sname\<close>.\<close>
definition find_by_name :: "utils \<Rightarrow> MCPServerManager \<Rightarrow> string \<Rightarrow> MCPServer option" where
  "find_by_name U m sname =
     find (\<lambda>s. normalize_server_name U (name s) = normalize_server_name U sname)
       (dict_values (get_registry m))"

text \<open>\<open>_get_mcp_server_from_tool_name\<close>\<close>
definition get_mcp_server_from_tool_name ::
  "utils \<Rightarrow> MCPServerManager \<Rightarrow> string \<Rightarrow> MCPServer option" where
  "get_mcp_server_from_tool_name U m tname =
     (case (case map_of (tool_name_to_mcp_server_name_mapping m) tname of
              Some sname \<Rightarrow> find_by_name U m sname
            | None \<Rightarrow> None) of
        Some server \<Rightarrow> Some server
      | None \<Rightarrow>
          (if is_tool_name_prefixed U tname
           then find_by_name U m (snd (get_server_name_prefix_tool_mcp U tname))
           else None))"

text \<open>
  \<open>call_tool\<close>; \<open>client_call_tool\<close> is the client's \<open>call_tool\<close>, whose result or
  exception is returned as it is.
\<close>
definition call_tool ::
  "utils \<Rightarrow> (MCPClient \<Rightarrow> MCPCallToolRequestParams \<Rightarrow> error + 'r) \<Rightarrow> MCPServerManager
     \<Rightarrow> string \<Rightarrow> (string, string) pydict \<Rightarrow> string option \<Rightarrow> error + 'r" where
  "call_tool U client_call_tool m tname targs mcp_auth_header =
     (case get_server_name_prefix_tool_mcp U tname of
        (original_tool_name, server_name_from_prefix) \<Rightarrow>
          (case get_mcp_server_from_tool_name U m tname of
             None \<Rightarrow> Inl (ToolNotFound tname)
           | Some mcp_server \<Rightarrow>
               (if server_name_from_prefix \<noteq> []
                   \<and> normalize_server_name U server_name_from_prefix
                       \<noteq> normalize_server_name U (name mcp_server)
                then Inl (PrefixMismatch (name mcp_server) server_name_from_prefix)
                else client_call_tool (create_mcp_client mcp_server mcp_auth_header)
                       \<lparr>params_name = original_tool_name, arguments = targs\<rparr>)))"

section \<open>The helpers as the specification describes them\<close>

text \<open>
  Modelled from the spec: the composition marker of the Name Codec, which qualifies a
  tool name as \<open>alias.tool\<close> (the helpers of \<open>mcp_server.utils\<close> are missing).
\<close>
definition marker :: char where
  "marker = CHR ''.''"

text \<open>
  Modelled from the spec: \<open>validate_mcp_server_name\<close> is missing; the alias is
  rejected when it is empty or uses the reserved separator.
\<close>
definition spec_validate_mcp_server_name :: "string \<Rightarrow> error option" where
  "spec_validate_mcp_server_name a =
     (if a = [] \<or> marker \<in> set a then Some (InvalidConfiguration a) else None)"

text \<open>
  Modelled from the spec: \<open>normalize_server_name\<close> is missing; case folding (of
  the ASCII letters) and trimming of blanks at both ends.
\<close>
definition lower_char :: "char \<Rightarrow> char" where
  "lower_char c =
     (case map_of (zip ''ABCDEFGHIJKLMNOPQRSTUVWXYZ'' ''abcdefghijklmnopqrstuvwxyz'') c of
        Some l \<Rightarrow> l | None \<Rightarrow> c)"

definition trim :: "string \<Rightarrow> string" where
  "trim s = rev (dropWhile (\<lambda>c. c = CHR '' '') (rev (dropWhile (\<lambda>c. c = CHR '' '') s)))"

definition spec_normalize_server_name :: "string \<Rightarrow> string" where
  "spec_normalize_server_name a = map lower_char (trim a)"

text \<open>
  Modelled from the spec: \<open>add_server_prefix_to_tool_name\<close>,
  \<open>get_server_name_prefix_tool_mcp\<close> and \<open>is_tool_name_prefixed\<close> are missing;
  \<open>compose\<close>, \<open>decompose\<close> (split at the first marker) and \<open>isQualified\<close>.
\<close>
definition spec_add_server_prefix_to_tool_name :: "string \<Rightarrow> string \<Rightarrow> string" where
  "spec_add_server_prefix_to_tool_name tname sname = sname @ [marker] @ tname"

definition spec_is_tool_name_prefixed :: "string \<Rightarrow> bool" where
  "spec_is_tool_name_prefixed tname = (marker \<in> set tname)"

definition spec_get_server_name_prefix_tool_mcp :: "string \<Rightarrow> string \<times> string" where
  "spec_get_server_name_prefix_tool_mcp tname =
     (if marker \<in> set tname
      then (tl (dropWhile (\<lambda>c. c \<noteq> marker) tname), takeWhile (\<lambda>c. c \<noteq> marker) tname)
      else (tname, []))"

definition spec_utils :: utils where
  "spec_utils =
     \<lparr>validate_mcp_server_name = spec_validate_mcp_server_name,
      normalize_server_name = spec_normalize_server_name,
      add_server_prefix_to_tool_name = spec_add_server_prefix_to_tool_name,
      get_server_name_prefix_tool_mcp = spec_get_server_name_prefix_tool_mcp,
      is_tool_name_prefixed = spec_is_tool_name_prefixed\<rparr>"

section \<open>Example values\<close>

text \<open>A configuration entry with every key absent, a database row, and the managers
  that the scenarios below start from.\<close>

definition ex_config :: server_config where
  "ex_config =
     \<lparr>cfg_url = None, cfg_command = None, cfg_args = None, cfg_env = None,
      cfg_transport = None, cfg_spec_version = None, cfg_auth_type = None,
      cfg_description = None, cfg_mcp_info = None\<rparr>"

definition ex_json_loads :: "string \<Rightarrow> (string, string) pydict option" where
  "ex_json_loads s = None"

definition files_id :: string where
  "files_id = server_id (config_server ''files'' ex_config)"

definition ex_row :: "string \<Rightarrow> string option \<Rightarrow> LiteLLM_MCPServerTable" where
  "ex_row sid al =
     \<lparr>db_server_id = sid, db_alias = al, db_url = Some ''http://localhost/mcp'',
      db_transport = ''http'', db_spec_version = ''2025-03-26'', db_auth_type = None,
      db_description = None, db_mcp_info = None, db_command = None, db_args = None,
      db_env = None\<rparr>"

definition files_loaded :: MCPServerManager where
  "files_loaded = snd (load_servers_from_config spec_utils [(''files'', ex_config)] MCPServerManager_init)"

definition dynamic_then_static :: MCPServerManager where
  "dynamic_then_static =
     snd (load_servers_from_config spec_utils [(''files'', ex_config)]
            (add_update_server ex_json_loads (ex_row files_id (Some ''dyn'')) MCPServerManager_init))"


text \<open>Two servers registered from the database, \<open>files\<close> and \<open>docs\<close>, each
  exposing a tool \<open>read\<close>; a client whose listing fails for \<open>files\<close>; a server whose
  alias holds the marker.\<close>

definition dyn_row :: "string \<Rightarrow> string \<Rightarrow> string \<Rightarrow> LiteLLM_MCPServerTable" where
  "dyn_row sid al u =
     \<lparr>db_server_id = sid, db_alias = Some al, db_url = Some u,
      db_transport = ''http'', db_spec_version = ''2025-03-26'', db_auth_type = None,
      db_description = None, db_mcp_info = None, db_command = None, db_args = None,
      db_env = None\<rparr>"

definition files_server :: MCPServer where
  "files_server = db_server ex_json_loads (dyn_row ''s1'' ''files'' ''http://files'')"

definition docs_server :: MCPServer where
  "docs_server = db_server ex_json_loads (dyn_row ''s2'' ''docs'' ''http://docs'')"

definition dotted_server :: MCPServer where
  "dotted_server = db_server ex_json_loads (dyn_row ''s3'' ''a.b'' ''http://dotted'')"

definition two_servers :: MCPServerManager where
  "two_servers =
     add_update_server ex_json_loads (dyn_row ''s2'' ''docs'' ''http://docs'')
       (add_update_server ex_json_loads (dyn_row ''s1'' ''files'' ''http://files'')
          MCPServerManager_init)"

definition read_tool :: MCPTool where
  "read_tool = \<lparr>tool_name = ''read'', tool_description = None, inputSchema = ''{}''\<rparr>"

definition all_list_read :: "MCPClient \<Rightarrow> MCPTool list outcome" where
  "all_list_read c = Returned [read_tool]"

definition files_down :: "MCPClient \<Rightarrow> MCPTool list outcome" where
  "files_down c =
     (if server_url c = ''http://files'' then Raised ''connection refused''
      else Returned [read_tool])"

definition no_restriction :: "unit \<Rightarrow> string list" where
  "no_restriction u = []"

definition two_servers_listed :: MCPServerManager where
  "two_servers_listed = snd (list_tools spec_utils no_restriction all_list_read () None two_servers)"

definition dotted_listed :: MCPServerManager where
  "dotted_listed =
     snd (list_tools spec_utils no_restriction
            (\<lambda>c. Returned [\<lparr>tool_name = ''c'', tool_description = None, inputSchema = ''{}''\<rparr>])
            () None
            (add_update_server ex_json_loads (dyn_row ''s3'' ''a.b'' ''http://dotted'')
               MCPServerManager_init))"

text \<open>A client for which \<open>files\<close> lists \<open>read\<close> and \<open>docs\<close> lists \<open>write\<close>, and
  the manager after one listing with it.\<close>
definition write_tool :: MCPTool where
  "write_tool = \<lparr>tool_name = ''write'', tool_description = None, inputSchema = ''{}''\<rparr>"

definition files_read_docs_write :: "MCPClient \<Rightarrow> MCPTool list outcome" where
  "files_read_docs_write c =
     (if server_url c = ''http://files'' then Returned [read_tool] else Returned [write_tool])"

definition read_write_listed :: MCPServerManager where
  "read_write_listed =
     snd (list_tools spec_utils no_restriction files_read_docs_write () None two_servers)"

text \<open>A client call that answers with the client and the request it was given.\<close>
definition echo_call :: "MCPClient \<Rightarrow> MCPCallToolRequestParams \<Rightarrow> error + (MCPClient \<times> MCPCallToolRequestParams)" where
  "echo_call c p = Inr (c, p)"

section \<open>Dictionaries\<close>

lemma map_of_dict_setitem: "map_of (dict_setitem k v d) = (map_of d)(k \<mapsto> v)"
  by (simp add: dict_setitem_def update_conv')

lemma keys_dict_setitem: "fst ` set (dict_setitem k v d) = insert k (fst ` set d)"
  using dom_update [of k v d] by (simp add: dict_setitem_def)

lemma pydict_ok_setitem: "pydict_ok d \<Longrightarrow> pydict_ok (dict_setitem k v d)"
  by (simp add: pydict_ok_def dict_setitem_def distinct_update)

lemma dict_contains_setitem:
  "dict_contains k' (dict_setitem k v d) = (k' = k \<or> dict_contains k' d)"
  using keys_dict_setitem [of k v d] by (auto simp: dict_contains_def)

lemma keys_dict_union:
  "fst ` set (dict_union a b) = fst ` set a \<union> fst ` set b"
  unfolding dict_union_def
proof (induction b arbitrary: a)
  case Nil
  show ?case by simp
next
  case (Cons kv b)
  show ?case by (simp add: Cons.IH keys_dict_setitem)
qed

lemma dict_contains_union:
  "dict_contains k (dict_union a b) = (dict_contains k a \<or> dict_contains k b)"
  by (simp add: dict_contains_def keys_dict_union)

lemma pydict_ok_union: "pydict_ok a \<Longrightarrow> pydict_ok (dict_union a b)"
  unfolding dict_union_def
  by (induction b arbitrary: a) (simp_all add: pydict_ok_setitem)

lemma map_of_union_absent:
  "k \<notin> fst ` set b \<Longrightarrow> map_of (dict_union a b) k = map_of a k"
  unfolding dict_union_def
  by (induction b arbitrary: a) (auto simp: map_of_dict_setitem)

lemma map_of_union_present:
  "distinct (map fst b) \<Longrightarrow> map_of b k = Some v \<Longrightarrow> map_of (dict_union a b) k = Some v"
  unfolding dict_union_def
proof (induction b arbitrary: a)
  case Nil
  then show ?case by simp
next
  case (Cons kv b)
  show ?case
  proof (cases "fst kv = k")
    case True
    with Cons.prems have v: "snd kv = v" and notin: "k \<notin> fst ` set b"
      by (cases kv; auto)+
    have "map_of (fold (\<lambda>kv d. dict_setitem (fst kv) (snd kv) d) b (dict_setitem (fst kv) (snd kv) a)) k
            = map_of (dict_setitem (fst kv) (snd kv) a) k"
      using map_of_union_absent [OF notin] by (simp add: dict_union_def)
    then show ?thesis using True v by (simp add: map_of_dict_setitem)
  next
    case False
    with Cons.prems have "distinct (map fst b)" "map_of b k = Some v"
      by (cases kv; auto)+
    then show ?thesis using Cons.IH by simp
  qed
qed

lemma pydict_ok_delitem:
  "pydict_ok d \<Longrightarrow> dict_delitem k d = Inr d' \<Longrightarrow> pydict_ok d'"
  by (auto simp: dict_delitem_def pydict_ok_def distinct_delete split: if_splits)

section \<open>The example managers\<close>

lemma spec_validate_files: "validate_mcp_server_name spec_utils ''files'' = None"
  by (simp add: spec_utils_def spec_validate_mcp_server_name_def marker_def)

lemma spec_validate_bad: "validate_mcp_server_name spec_utils ''bad.name'' = Some (InvalidConfiguration ''bad.name'')"
  by (simp add: spec_utils_def spec_validate_mcp_server_name_def marker_def)

lemma spec_decompose_files_read:
  "get_server_name_prefix_tool_mcp spec_utils ''files.read'' = (''read'', ''files'')"
  "get_server_name_prefix_tool_mcp spec_utils ''docs.read'' = (''read'', ''docs'')"
  "get_server_name_prefix_tool_mcp spec_utils ''a.b.c'' = (''b.c'', ''a'')"
  "is_tool_name_prefixed spec_utils ''files.read''"
  "is_tool_name_prefixed spec_utils ''docs.read''"
  by (simp_all add: spec_utils_def spec_get_server_name_prefix_tool_mcp_def
      spec_is_tool_name_prefixed_def marker_def)

lemma spec_normalize_examples:
  "normalize_server_name spec_utils ''files'' = ''files''"
  "normalize_server_name spec_utils ''docs'' = ''docs''"
  "normalize_server_name spec_utils ''a'' = ''a''"
  "normalize_server_name spec_utils ''a.b'' = ''a.b''"
  by (simp_all add: spec_utils_def spec_normalize_server_name_def trim_def lower_char_def)

lemma files_loaded_eq:
  "files_loaded =
     \<lparr>registry = [], config_mcp_servers = [(files_id, config_server ''files'' ex_config)],
      tool_name_to_mcp_server_name_mapping = []\<rparr>"
  by (simp add: files_loaded_def spec_validate_files MCPServerManager_init_def dict_setitem_def
      files_id_def)

lemma dynamic_then_static_eq:
  "dynamic_then_static =
     \<lparr>registry = [(files_id, db_server ex_json_loads (ex_row files_id (Some ''dyn'')))],
      config_mcp_servers = [(files_id, config_server ''files'' ex_config)],
      tool_name_to_mcp_server_name_mapping = []\<rparr>"
  by (simp add: dynamic_then_static_def spec_validate_files MCPServerManager_init_def
      dict_setitem_def files_id_def add_update_server_def get_registry_def dict_union_def
      dict_contains_def ex_row_def)

lemma files_server_simps:
  "server_id files_server = ''s1''" "name files_server = ''files''"
  "create_mcp_client files_server None =
     \<lparr>server_url = ''http://files'', transport_type = ''http'', client_auth_type = None,
      auth_value = None, timeout = 60, stdio_config = None\<rparr>"
  by (simp_all add: files_server_def db_server_def dyn_row_def alias_or_id_def create_mcp_client_def
      MCPTransport_stdio_def MCPTransport_sse_def or_empty_def py_or_def)

lemma docs_server_simps:
  "server_id docs_server = ''s2''" "name docs_server = ''docs''"
  "create_mcp_client docs_server None =
     \<lparr>server_url = ''http://docs'', transport_type = ''http'', client_auth_type = None,
      auth_value = None, timeout = 60, stdio_config = None\<rparr>"
  by (simp_all add: docs_server_def db_server_def dyn_row_def alias_or_id_def create_mcp_client_def
      MCPTransport_stdio_def MCPTransport_sse_def or_empty_def py_or_def)

lemma dotted_server_simps:
  "server_id dotted_server = ''s3''" "name dotted_server = ''a.b''"
  "create_mcp_client dotted_server None =
     \<lparr>server_url = ''http://dotted'', transport_type = ''http'', client_auth_type = None,
      auth_value = None, timeout = 60, stdio_config = None\<rparr>"
  by (simp_all add: dotted_server_def db_server_def dyn_row_def alias_or_id_def
      create_mcp_client_def MCPTransport_stdio_def MCPTransport_sse_def or_empty_def py_or_def)

lemma two_servers_eq:
  "two_servers =
     \<lparr>registry = [(''s1'', files_server), (''s2'', docs_server)], config_mcp_servers = [],
      tool_name_to_mcp_server_name_mapping = []\<rparr>"
  by (simp add: two_servers_def add_update_server_def get_registry_def dict_union_def
      dict_contains_def dict_setitem_def MCPServerManager_init_def dyn_row_def files_server_def
      docs_server_def)

lemma two_servers_listed_eq:
  "two_servers_listed =
     \<lparr>registry = [(''s1'', files_server), (''s2'', docs_server)], config_mcp_servers = [],
      tool_name_to_mcp_server_name_mapping =
        [(''read'', ''docs''), (''files.read'', ''files''), (''docs.read'', ''docs'')]\<rparr>"
  by (simp add: two_servers_listed_def list_tools_def get_allowed_mcp_servers_def no_restriction_def
      two_servers_eq get_registry_def dict_union_def dict_setitem_def dict_keys_def
      get_mcp_server_by_id_def dict_values_def files_server_simps docs_server_simps
      get_tools_from_server_def all_list_read_def prefixed_tool_def spec_utils_def
      spec_add_server_prefix_to_tool_name_def marker_def read_tool_def)

lemma dotted_listed_eq:
  "dotted_listed =
     \<lparr>registry = [(''s3'', dotted_server)], config_mcp_servers = [],
      tool_name_to_mcp_server_name_mapping = [(''c'', ''a.b''), (''a.b.c'', ''a.b'')]\<rparr>"
proof -
  have start: "add_update_server ex_json_loads (dyn_row ''s3'' ''a.b'' ''http://dotted'')
                 MCPServerManager_init
               = \<lparr>registry = [(''s3'', dotted_server)], config_mcp_servers = [],
                  tool_name_to_mcp_server_name_mapping = []\<rparr>"
    by (simp add: add_update_server_def get_registry_def dict_union_def dict_contains_def
        dict_setitem_def MCPServerManager_init_def dyn_row_def dotted_server_def)
  show ?thesis
    unfolding dotted_listed_def start
    by (simp add: list_tools_def get_allowed_mcp_servers_def no_restriction_def get_registry_def
        dict_union_def dict_setitem_def dict_keys_def get_mcp_server_by_id_def dict_values_def
        dotted_server_simps get_tools_from_server_def prefixed_tool_def spec_utils_def
        spec_add_server_prefix_to_tool_name_def marker_def)
qed

lemma two_servers_listed_resolve:
  "get_mcp_server_from_tool_name spec_utils two_servers_listed ''files.read'' = Some files_server"
  "find_by_name spec_utils two_servers_listed ''files'' = Some files_server"
  "find_by_name spec_utils two_servers_listed ''docs'' = Some docs_server"
  by (simp_all add: get_mcp_server_from_tool_name_def find_by_name_def two_servers_listed_eq
      get_registry_def dict_union_def dict_setitem_def dict_values_def files_server_simps
      docs_server_simps spec_normalize_examples)

lemma dotted_listed_resolve:
  "get_mcp_server_from_tool_name spec_utils dotted_listed ''a.b.c'' = Some dotted_server"
  by (simp add: get_mcp_server_from_tool_name_def find_by_name_def dotted_listed_eq
      get_registry_def dict_union_def dict_setitem_def dict_values_def dotted_server_simps)

section \<open>The stable server id\<close>

lemma length_hex32: "length (hex32 w) = 8"
  by (simp add: hex32_def)

lemma length_hexdigest: "length (hexdigest r) = 64"
  by (induction r rule: hexdigest.induct) (simp add: length_hex32)

lemma hexchar_table: "list_all (\<lambda>n. hexchar n \<in> set ''0123456789abcdef'') [0..<16]"
  by (simp add: hexchar_def upt_rec)

lemma hexchar_lower_hex: "n < 16 \<Longrightarrow> hexchar n \<in> set ''0123456789abcdef''"
proof -
  assume "n < 16"
  then have "n \<in> set [0..<16]" by simp
  with hexchar_table show ?thesis unfolding list_all_iff by blast
qed

lemma nibble_bound: "unat ((w :: u32) AND 15) < 16"
proof -
  have "unat (w AND 15) \<le> unat (15 :: u32)"
    by (rule word_and_le1 [THEN word_le_nat_alt [THEN iffD1]])
  then show ?thesis by simp
qed

lemma set_hex32: "set (hex32 w) \<subseteq> set ''0123456789abcdef''"
  unfolding hex32_def using hexchar_lower_hex [OF nibble_bound] by auto

lemma set_hexdigest: "set (hexdigest r) \<subseteq> set ''0123456789abcdef''"
  using set_hex32 by (induction r rule: hexdigest.induct) simp

text \<open>
  C10. For all arguments, the id has 32 characters, all of them lower-case hexadecimal
  digits: it is the first 32 characters of the SHA-256 hex digest of the arguments
  joined by \<open>|\<close>, an absent \<open>auth_type\<close> counting as the empty string.
\<close>
theorem generate_stable_server_id_shape:
  "length (generate_stable_server_id sname surl stransport sspec sauth) = 32
   \<and> set (generate_stable_server_id sname surl stransport sspec sauth)
       \<subseteq> set ''0123456789abcdef''
   \<and> generate_stable_server_id sname surl stransport sspec sauth
       = take 32 (hexdigest (sha256 (encode_utf8
           (sname @ ''|'' @ surl @ ''|'' @ stransport @ ''|'' @ sspec @ ''|''
              @ (case sauth of None \<Rightarrow> [] | Some a \<Rightarrow> a)))))"
proof (intro conjI)
  show "length (generate_stable_server_id sname surl stransport sspec sauth) = 32"
    by (simp add: generate_stable_server_id_def length_hexdigest)
  have "set (take 32 (hexdigest (sha256 (encode_utf8 (params_string sname surl stransport sspec sauth)))))
          \<subseteq> set (hexdigest (sha256 (encode_utf8 (params_string sname surl stransport sspec sauth))))"
    by (rule set_take_subset)
  then show "set (generate_stable_server_id sname surl stransport sspec sauth)
       \<subseteq> set ''0123456789abcdef''"
    unfolding generate_stable_server_id_def using set_hexdigest by blast
  show "generate_stable_server_id sname surl stransport sspec sauth
       = take 32 (hexdigest (sha256 (encode_utf8
           (sname @ ''|'' @ surl @ ''|'' @ stransport @ ''|'' @ sspec @ ''|''
              @ (case sauth of None \<Rightarrow> [] | Some a \<Rightarrow> a)))))"
    by (simp add: generate_stable_server_id_def params_string_def)
qed

text \<open>C10, witness: with every argument empty, and with every argument given.\<close>
theorem generate_stable_server_id_shape_witness:
  "length (generate_stable_server_id [] [] [] [] None) = 32
   \<and> length (generate_stable_server_id ''files'' ''http://localhost/mcp'' ''http''
               ''2025-03-26'' (Some ''api_key'')) = 32
   \<and> set (generate_stable_server_id ''files'' ''http://localhost/mcp'' ''http''
            ''2025-03-26'' (Some ''api_key'')) \<subseteq> set ''0123456789abcdef''"
  using generate_stable_server_id_shape [of "[]" "[]" "[]" "[]" None]
    generate_stable_server_id_shape [of "''files''" "''http://localhost/mcp''" "''http''"
      "''2025-03-26''" "Some ''api_key''"]
  by blast

text \<open>
  What the id distinguishes: the string that is hashed for an absent \<open>auth_type\<close>
  differs from the one for a non-empty \<open>auth_type\<close> (whether the digests differ is a
  matter of SHA-256), and an empty \<open>auth_type\<close> gives the id of an absent one.
\<close>
theorem generate_stable_server_id_auth_input:
  "(a \<noteq> [] \<longrightarrow>
      params_string sname surl stransport sspec None
        \<noteq> params_string sname surl stransport sspec (Some a))
   \<and> generate_stable_server_id sname surl stransport sspec (Some [])
       = generate_stable_server_id sname surl stransport sspec None"
  by (simp add: params_string_def generate_stable_server_id_def)

theorem generate_stable_server_id_auth_input_witness:
  "''api_key'' \<noteq> []
   \<and> params_string ''files'' ''http://files'' ''http'' ''2025-03-26'' None
       = ''files|http://files|http|2025-03-26|''
   \<and> params_string ''files'' ''http://files'' ''http'' ''2025-03-26'' (Some ''api_key'')
       = ''files|http://files|http|2025-03-26|api_key''
   \<and> params_string ''files'' ''http://files'' ''http'' ''2025-03-26'' None
       \<noteq> params_string ''files'' ''http://files'' ''http'' ''2025-03-26'' (Some ''api_key'')"
  using generate_stable_server_id_auth_input [of "''api_key''" "''files''" "''http://files''"
      "''http''" "''2025-03-26''"]
  by (simp add: params_string_def)

section \<open>The union of the two partitions\<close>

text \<open>
  C1 (as amended). The claim says that an id held by both partitions is mapped to the
  static record. \<open>get_registry\<close> is \<open>config_mcp_servers | registry\<close>, and the right
  operand of a dictionary union wins: the id is mapped to the dynamic record of
  \<open>registry\<close>; an id that only the static partition holds is mapped to its static
  record.
\<close>
theorem get_registry_dynamic_wins:
  "pydict_ok (registry m) \<Longrightarrow>
   map_of (get_registry m) k =
     (case map_of (registry m) k of
        Some d \<Rightarrow> Some d
      | None \<Rightarrow> map_of (config_mcp_servers m) k)"
proof (cases "map_of (registry m) k")
  case None
  then have "k \<notin> fst ` set (registry m)"
    by (simp add: map_of_eq_None_iff)
  then show ?thesis using None by (simp add: get_registry_def map_of_union_absent)
next
  case (Some d)
  assume "pydict_ok (registry m)"
  then show ?thesis using Some
    by (simp add: get_registry_def pydict_ok_def map_of_union_present)
qed

text \<open>
  C1, counterexample: a record is added under the id that the configuration entry
  \<open>files\<close> will get, then the configuration is loaded. Both partitions hold the id, and
  the union reports the dynamic record (named \<open>dyn\<close>), not the static one.
\<close>
theorem get_registry_static_wins_counterexample:
  "map_of (config_mcp_servers dynamic_then_static) files_id = Some (config_server ''files'' ex_config)
   \<and> map_of (registry dynamic_then_static) files_id
       = Some (db_server ex_json_loads (ex_row files_id (Some ''dyn'')))
   \<and> map_of (get_registry dynamic_then_static) files_id
       = Some (db_server ex_json_loads (ex_row files_id (Some ''dyn'')))
   \<and> name (db_server ex_json_loads (ex_row files_id (Some ''dyn''))) = ''dyn''
   \<and> name (config_server ''files'' ex_config) = ''files''"
  by (simp add: dynamic_then_static_eq get_registry_def dict_union_def dict_setitem_def
      db_server_def config_server_def alias_or_id_def ex_row_def)

text \<open>C1, witness of the amended statement on the same manager.\<close>
theorem get_registry_dynamic_wins_witness:
  "pydict_ok (registry dynamic_then_static)
   \<and> map_of (get_registry dynamic_then_static) files_id
       = Some (db_server ex_json_loads (ex_row files_id (Some ''dyn'')))"
proof -
  have ok: "pydict_ok (registry dynamic_then_static)"
    by (simp add: dynamic_then_static_eq pydict_ok_def)
  show ?thesis
    using ok get_registry_dynamic_wins [OF ok, of files_id]
    by (simp add: dynamic_then_static_eq)
qed

section \<open>Adding and removing servers\<close>

text \<open>
  C2. When the id of the record is a key of the union of both partitions,
  \<open>add_update_server\<close> changes nothing: the manager, and so the union, is the same. In
  particular, after loading the configuration entry \<open>a\<close> into a manager whose dynamic
  partition does not hold the id of \<open>a\<close>, adding a record with that id leaves the union
  reporting the static record of \<open>a\<close>.
\<close>
theorem add_update_server_existing_is_noop:
  "(dict_contains (db_server_id r) (get_registry m) \<longrightarrow>
      add_update_server jl r m = m \<and> get_registry (add_update_server jl r m) = get_registry m)
   \<and> (validate_mcp_server_name U a = None
        \<and> \<not> dict_contains (server_id (config_server a c)) (registry m)
        \<and> db_server_id r' = server_id (config_server a c) \<longrightarrow>
      map_of (get_registry (add_update_server jl r'
                (snd (load_servers_from_config U [(a, c)] m))))
        (server_id (config_server a c)) = Some (config_server a c))"
proof (intro conjI impI)
  assume "dict_contains (db_server_id r) (get_registry m)"
  then show "add_update_server jl r m = m" by (simp add: add_update_server_def)
  then show "get_registry (add_update_server jl r m) = get_registry m" by simp
next
  let ?sid = "server_id (config_server a c)"
  let ?m1 = "m\<lparr>config_mcp_servers := dict_setitem ?sid (config_server a c) (config_mcp_servers m)\<rparr>"
  assume h: "validate_mcp_server_name U a = None
        \<and> \<not> dict_contains ?sid (registry m) \<and> db_server_id r' = ?sid"
  then have load: "snd (load_servers_from_config U [(a, c)] m) = ?m1" by simp
  have "dict_contains ?sid (get_registry ?m1)"
    by (simp add: get_registry_def dict_contains_union dict_contains_setitem)
  then have noop: "add_update_server jl r' ?m1 = ?m1"
    using h by (simp add: add_update_server_def)
  have "?sid \<notin> fst ` set (registry m)"
    using h by (simp add: dict_contains_def)
  then have "map_of (get_registry ?m1) ?sid = map_of (config_mcp_servers ?m1) ?sid"
    by (simp add: get_registry_def map_of_union_absent)
  then have "map_of (get_registry ?m1) ?sid = Some (config_server a c)"
    by (simp add: map_of_dict_setitem)
  then show "map_of (get_registry (add_update_server jl r'
                (snd (load_servers_from_config U [(a, c)] m)))) ?sid = Some (config_server a c)"
    by (simp only: load noop)
qed

text \<open>C2, witness: the entry \<open>files\<close> and a database row with its id.\<close>
theorem add_update_server_existing_is_noop_witness:
  "dict_contains (db_server_id (ex_row files_id (Some ''dyn''))) (get_registry files_loaded)
   \<and> add_update_server ex_json_loads (ex_row files_id (Some ''dyn'')) files_loaded = files_loaded
   \<and> validate_mcp_server_name spec_utils ''files'' = None
   \<and> \<not> dict_contains (server_id (config_server ''files'' ex_config)) (registry MCPServerManager_init)
   \<and> db_server_id (ex_row files_id (Some ''dyn'')) = server_id (config_server ''files'' ex_config)
   \<and> map_of (get_registry (add_update_server ex_json_loads (ex_row files_id (Some ''dyn''))
                (snd (load_servers_from_config spec_utils [(''files'', ex_config)]
                        MCPServerManager_init))))
        (server_id (config_server ''files'' ex_config)) = Some (config_server ''files'' ex_config)"
proof -
  have a: "dict_contains (db_server_id (ex_row files_id (Some ''dyn''))) (get_registry files_loaded)"
    by (simp add: files_loaded_eq get_registry_def dict_union_def dict_contains_def ex_row_def)
  have b: "validate_mcp_server_name spec_utils ''files'' = None
        \<and> \<not> dict_contains (server_id (config_server ''files'' ex_config)) (registry MCPServerManager_init)
        \<and> db_server_id (ex_row files_id (Some ''dyn'')) = server_id (config_server ''files'' ex_config)"
    by (simp add: spec_validate_files MCPServerManager_init_def dict_contains_def ex_row_def
        files_id_def)
  show ?thesis
    using a b add_update_server_existing_is_noop [where r = "ex_row files_id (Some ''dyn'')"
        and m = files_loaded and jl = ex_json_loads and U = spec_utils and a = "''files''"
        and c = ex_config and r' = "ex_row files_id (Some ''dyn'')"]
      add_update_server_existing_is_noop [where r = "ex_row files_id (Some ''dyn'')"
        and m = MCPServerManager_init and jl = ex_json_loads and U = spec_utils and a = "''files''"
        and c = ex_config and r' = "ex_row files_id (Some ''dyn'')"]
    by blast
qed

text \<open>
  C3. The claim says that \<open>remove_server\<close> never raises. For a record whose id is a key
  of the static partition only, the membership test in \<open>get_registry()\<close> succeeds and
  \<open>del self.registry[...]\<close> raises \<open>KeyError\<close>.
\<close>
theorem remove_server_static_only_raises:
  "remove_server (ex_row files_id None) files_loaded = Inl (KeyError files_id)
   \<and> dict_contains files_id (config_mcp_servers files_loaded)
   \<and> \<not> dict_contains files_id (registry files_loaded)"
  by (simp add: files_loaded_eq remove_server_def opt_in_registry_def ex_row_def get_registry_def
      dict_union_def dict_contains_def dict_delitem_def)

text \<open>What \<open>remove_server\<close> does keep: the static partition is never changed.\<close>
lemma remove_server_keeps_static:
  "remove_server r m = Inr (m', l) \<Longrightarrow> config_mcp_servers m' = config_mcp_servers m"
  by (auto simp: remove_server_def split: if_splits sum.splits)

text \<open>A record whose alias and id are keys of neither partition: nothing changes and
  a warning is logged, however often the call is repeated.\<close>
theorem remove_server_unknown_is_noop:
  assumes "\<not> opt_in_registry (db_alias r) m"
    and "\<not> dict_contains (db_server_id r) (get_registry m)"
  shows "remove_server r m = Inr (m, Warning (db_server_id r))"
  using assms by (simp add: remove_server_def)

text \<open>The length of a generated id tells it from the keys \<open>nowhere\<close> and \<open>ghost\<close>.\<close>
theorem remove_server_unknown_is_noop_witness:
  "\<not> opt_in_registry (db_alias (ex_row ''nowhere'' (Some ''ghost''))) files_loaded
   \<and> \<not> dict_contains (db_server_id (ex_row ''nowhere'' (Some ''ghost''))) (get_registry files_loaded)
   \<and> remove_server (ex_row ''nowhere'' (Some ''ghost'')) files_loaded
       = Inr (files_loaded, Warning ''nowhere'')"
proof -
  have len: "length files_id = 32"
    by (simp add: files_id_def config_server_def generate_stable_server_id_def length_hexdigest)
  have ne: "files_id \<noteq> ''nowhere''" "files_id \<noteq> ''ghost''"
  proof -
    show "files_id \<noteq> ''nowhere''"
    proof
      assume "files_id = ''nowhere''"
      then have "length files_id = length ''nowhere''" by (rule arg_cong)
      with len show False by simp
    qed
    show "files_id \<noteq> ''ghost''"
    proof
      assume "files_id = ''ghost''"
      then have "length files_id = length ''ghost''" by (rule arg_cong)
      with len show False by simp
    qed
  qed
  have a: "\<not> opt_in_registry (db_alias (ex_row ''nowhere'' (Some ''ghost''))) files_loaded"
    using ne by (simp add: opt_in_registry_def ex_row_def files_loaded_eq get_registry_def
        dict_union_def dict_contains_def)
  have b: "\<not> dict_contains (db_server_id (ex_row ''nowhere'' (Some ''ghost''))) (get_registry files_loaded)"
    using ne by (simp add: ex_row_def files_loaded_eq get_registry_def dict_union_def
        dict_contains_def)
  show ?thesis
    using a b remove_server_unknown_is_noop [OF a b] by (simp add: ex_row_def)
qed

section \<open>Loading the configuration\<close>

lemma load_servers_from_config_append:
  "fst (load_servers_from_config U pre m) = None \<Longrightarrow>
   load_servers_from_config U (pre @ post) m =
     load_servers_from_config U post (snd (load_servers_from_config U pre m))"
  by (induction pre arbitrary: m) (auto split: option.splits)

lemma load_servers_from_config_all_valid:
  "list_all (\<lambda>kv. validate_mcp_server_name U (fst kv) = None) pre \<Longrightarrow>
   fst (load_servers_from_config U pre m) = None"
  by (induction pre arbitrary: m) (auto split: option.splits)

text \<open>
  C4 (as amended). The claim says that a malformed entry fails alone and every other
  entry is still loaded. The loop has no handler: the exception of
  \<open>validate_mcp_server_name\<close> ends the call. The entries before the malformed one are
  in the static partition, the malformed entry and every entry after it are not
  processed, and the exception reaches the caller.
\<close>
theorem load_stops_at_first_invalid:
  assumes "list_all (\<lambda>kv. validate_mcp_server_name U (fst kv) = None) pre"
    and "validate_mcp_server_name U bad = Some e"
  shows "load_servers_from_config U (pre @ (bad, c) # post) m
           = (Some e, snd (load_servers_from_config U pre m))
         \<and> fst (load_servers_from_config U pre m) = None"
proof -
  have ok: "fst (load_servers_from_config U pre m) = None"
    using assms(1) by (rule load_servers_from_config_all_valid)
  have "load_servers_from_config U (pre @ (bad, c) # post) m
          = load_servers_from_config U ((bad, c) # post) (snd (load_servers_from_config U pre m))"
    using ok by (rule load_servers_from_config_append)
  also have "\<dots> = (Some e, snd (load_servers_from_config U pre m))"
    using assms(2) by simp
  finally show ?thesis using ok by simp
qed

text \<open>
  C4, counterexample: the malformed entry \<open>bad.name\<close> comes first and the well-formed
  entry \<open>good\<close> second; the call raises and the static partition stays empty.
\<close>
theorem load_others_still_load_counterexample:
  "validate_mcp_server_name spec_utils ''good'' = None
   \<and> load_servers_from_config spec_utils [(''bad.name'', ex_config), (''good'', ex_config)]
        MCPServerManager_init
      = (Some (InvalidConfiguration ''bad.name''), MCPServerManager_init)
   \<and> config_mcp_servers MCPServerManager_init = []"
  by (simp add: spec_validate_bad spec_utils_def spec_validate_mcp_server_name_def marker_def
      MCPServerManager_init_def)

text \<open>C4, witness: \<open>files\<close> is loaded, \<open>bad.name\<close> raises, \<open>good\<close> is never reached.\<close>
theorem load_stops_at_first_invalid_witness:
  "list_all (\<lambda>kv. validate_mcp_server_name spec_utils (fst kv) = None) [(''files'', ex_config)]
   \<and> validate_mcp_server_name spec_utils ''bad.name'' = Some (InvalidConfiguration ''bad.name'')
   \<and> load_servers_from_config spec_utils
        ([(''files'', ex_config)] @ (''bad.name'', ex_config) # [(''good'', ex_config)])
        MCPServerManager_init
      = (Some (InvalidConfiguration ''bad.name''), files_loaded)
   \<and> config_mcp_servers files_loaded = [(files_id, config_server ''files'' ex_config)]"
proof -
  have a: "list_all (\<lambda>kv. validate_mcp_server_name spec_utils (fst kv) = None) [(''files'', ex_config)]"
    by (simp add: spec_validate_files)
  show ?thesis
    using a load_stops_at_first_invalid [OF a spec_validate_bad, of ex_config
        "[(''good'', ex_config)]" MCPServerManager_init]
    by (simp add: spec_validate_bad spec_validate_files files_loaded_eq MCPServerManager_init_def
        dict_setitem_def files_id_def)
qed

section \<open>The allow-list\<close>

text \<open>
  C6. When the authorization handler returns the empty list, the allow-list is the list
  of the keys of the union, that is every id of the two partitions; a non-empty list is
  returned as it is.
\<close>
theorem get_allowed_mcp_servers_default:
  "(allowed_of a = [] \<longrightarrow>
      get_allowed_mcp_servers allowed_of a m = dict_keys (get_registry m)
      \<and> set (get_allowed_mcp_servers allowed_of a m)
          = set (dict_keys (config_mcp_servers m)) \<union> set (dict_keys (registry m)))
   \<and> (allowed_of a \<noteq> [] \<longrightarrow> get_allowed_mcp_servers allowed_of a m = allowed_of a)"
  by (simp add: get_allowed_mcp_servers_def dict_keys_def get_registry_def keys_dict_union)

text \<open>C6, witness: an empty and a non-empty answer, on the manager holding \<open>files\<close>.\<close>
theorem get_allowed_mcp_servers_default_witness:
  "(\<lambda>u :: unit. ([] :: string list)) () = []
   \<and> get_allowed_mcp_servers (\<lambda>u :: unit. []) () files_loaded = [files_id]
   \<and> (\<lambda>u :: unit. [''s1'', ''s2'']) () \<noteq> []
   \<and> get_allowed_mcp_servers (\<lambda>u :: unit. [''s1'', ''s2'']) () files_loaded = [''s1'', ''s2'']"
  using get_allowed_mcp_servers_default [of "\<lambda>u :: unit. []" "()" files_loaded]
    get_allowed_mcp_servers_default [of "\<lambda>u :: unit. [''s1'', ''s2'']" "()" files_loaded]
  by (simp add: files_loaded_eq get_registry_def dict_union_def dict_keys_def)

section \<open>Listing the tools of the allowed servers\<close>

lemma fst_prefix_tools:
  "fst (prefix_tools U server tools acc mapping) = acc @ map (prefixed_tool U server) tools"
  by (induction tools arbitrary: acc mapping) simp_all

lemma get_tools_from_server_partitions:
  "get_tools_from_server U lt server hdr m = (r, m') \<Longrightarrow>
   registry m' = registry m \<and> config_mcp_servers m' = config_mcp_servers m"
  by (auto simp: get_tools_from_server_def split: outcome.splits prod.splits)

lemma get_mcp_server_by_id_same_partitions:
  "registry m' = registry m \<Longrightarrow> config_mcp_servers m' = config_mcp_servers m \<Longrightarrow>
   get_mcp_server_by_id m' sid = get_mcp_server_by_id m sid"
  by (simp add: get_mcp_server_by_id_def get_registry_def)

lemma get_tools_from_server_result:
  "fst (get_tools_from_server U lt server hdr m) =
     (case lt (create_mcp_client server hdr) of
        Returned tools \<Rightarrow> Inr (map (prefixed_tool U server) tools)
      | Raised e \<Rightarrow> Inr []
      | WasCancelled \<Rightarrow> Inl CancelledError)"
proof (cases "lt (create_mcp_client server hdr)")
  case (Returned tools)
  have "fst (prefix_tools U server tools [] (tool_name_to_mcp_server_name_mapping m))
          = map (prefixed_tool U server) tools"
    by (simp add: fst_prefix_tools)
  then show ?thesis using Returned
    by (auto simp: get_tools_from_server_def split: prod.splits)
next
  case (Raised e)
  then show ?thesis by (simp add: get_tools_from_server_def)
next
  case WasCancelled
  then show ?thesis by (simp add: get_tools_from_server_def)
qed

lemma list_tools_loop_result:
  assumes "registry m = registry m0" and "config_mcp_servers m = config_mcp_servers m0"
    and "list_all (\<lambda>sid. case get_mcp_server_by_id m0 sid of
                            None \<Rightarrow> True
                          | Some s \<Rightarrow> lt (create_mcp_client s hdr) \<noteq> WasCancelled) ids"
  shows "fst (list_tools_loop U lt hdr ids acc m)
           = Inr (acc @ concat (map (upstream_tools U lt hdr m0) ids))"
  using assms
proof (induction ids arbitrary: acc m)
  case Nil
  then show ?case by simp
next
  case (Cons sid rest)
  have by_id: "get_mcp_server_by_id m sid = get_mcp_server_by_id m0 sid"
    using Cons.prems(1,2) by (rule get_mcp_server_by_id_same_partitions)
  have rest_ok: "list_all (\<lambda>sid. case get_mcp_server_by_id m0 sid of
                            None \<Rightarrow> True
                          | Some s \<Rightarrow> lt (create_mcp_client s hdr) \<noteq> WasCancelled) rest"
    using Cons.prems(3) by simp
  show ?case
  proof (cases "get_mcp_server_by_id m0 sid")
    case None
    then show ?thesis
      using by_id Cons.IH [OF Cons.prems(1,2) rest_ok]
      by (simp add: upstream_tools_def)
  next
    case (Some server)
    obtain r m' where step: "get_tools_from_server U lt server hdr m = (r, m')"
      by (cases "get_tools_from_server U lt server hdr m")
    have parts: "registry m' = registry m0" "config_mcp_servers m' = config_mcp_servers m0"
      using get_tools_from_server_partitions [OF step] Cons.prems(1,2) by simp_all
    have r: "r = (case lt (create_mcp_client server hdr) of
                    Returned tools \<Rightarrow> Inr (map (prefixed_tool U server) tools)
                  | Raised e \<Rightarrow> Inr []
                  | WasCancelled \<Rightarrow> Inl CancelledError)"
      using get_tools_from_server_result [of U lt server hdr m] step by simp
    have not_cancelled: "lt (create_mcp_client server hdr) \<noteq> WasCancelled"
      using Cons.prems(3) Some by simp
    show ?thesis
    proof (cases "lt (create_mcp_client server hdr)")
      case (Returned tools)
      then show ?thesis
        using by_id Some step r Cons.IH [OF parts rest_ok]
        by (simp add: upstream_tools_def)
    next
      case (Raised e)
      then show ?thesis
        using by_id Some step r Cons.IH [OF parts rest_ok]
        by (simp add: upstream_tools_def)
    next
      case WasCancelled
      then show ?thesis using not_cancelled by simp
    qed
  qed
qed

text \<open>
  C5. When the allow-list holds two servers, the listing of one raises an exception and
  the listing of the other returns its tools, \<open>list_tools\<close> returns (it does not raise)
  exactly the prefixed tools of the second server, in either order of the allow-list.
  An exception is any \<open>Exception\<close>; a cancellation is not a failure of the upstream
  and is re-raised.
\<close>
theorem list_tools_isolates_failing_upstream:
  assumes "get_allowed_mcp_servers allowed_of a m = [ida, idb]
           \<or> get_allowed_mcp_servers allowed_of a m = [idb, ida]"
    and "get_mcp_server_by_id m ida = Some sa"
    and "get_mcp_server_by_id m idb = Some sb"
    and "lt (create_mcp_client sa hdr) = Raised e"
    and "lt (create_mcp_client sb hdr) = Returned tools"
  shows "fst (list_tools U allowed_of lt a hdr m) = Inr (map (prefixed_tool U sb) tools)"
proof -
  have ua: "upstream_tools U lt hdr m ida = []"
    using assms(2,4) by (simp add: upstream_tools_def)
  have ub: "upstream_tools U lt hdr m idb = map (prefixed_tool U sb) tools"
    using assms(3,5) by (simp add: upstream_tools_def)
  have ok: "list_all (\<lambda>sid. case get_mcp_server_by_id m sid of
                            None \<Rightarrow> True
                          | Some s \<Rightarrow> lt (create_mcp_client s hdr) \<noteq> WasCancelled)
              (get_allowed_mcp_servers allowed_of a m)"
    using assms by auto
  have "fst (list_tools U allowed_of lt a hdr m)
          = Inr ([] @ concat (map (upstream_tools U lt hdr m) (get_allowed_mcp_servers allowed_of a m)))"
    unfolding list_tools_def by (rule list_tools_loop_result [OF refl refl ok])
  then show ?thesis using assms(1) ua ub by auto
qed

text \<open>C5, witness: the listing of \<open>files\<close> is refused, \<open>docs\<close> answers with \<open>read\<close>.\<close>
theorem list_tools_isolates_failing_upstream_witness:
  "get_allowed_mcp_servers no_restriction () two_servers = [''s1'', ''s2'']
   \<and> get_mcp_server_by_id two_servers ''s1'' = Some files_server
   \<and> get_mcp_server_by_id two_servers ''s2'' = Some docs_server
   \<and> files_down (create_mcp_client files_server None) = Raised ''connection refused''
   \<and> files_down (create_mcp_client docs_server None) = Returned [read_tool]
   \<and> fst (list_tools spec_utils no_restriction files_down () None two_servers)
       = Inr [\<lparr>tool_name = ''docs.read'', tool_description = None, inputSchema = ''{}''\<rparr>]"
proof -
  have a: "get_allowed_mcp_servers no_restriction () two_servers = [''s1'', ''s2'']
           \<or> get_allowed_mcp_servers no_restriction () two_servers = [''s2'', ''s1'']"
    by (simp add: get_allowed_mcp_servers_def no_restriction_def two_servers_eq get_registry_def
        dict_union_def dict_setitem_def dict_keys_def)
  have b: "get_mcp_server_by_id two_servers ''s1'' = Some files_server"
    by (simp add: get_mcp_server_by_id_def two_servers_eq get_registry_def dict_union_def
        dict_setitem_def dict_values_def files_server_simps)
  have c: "get_mcp_server_by_id two_servers ''s2'' = Some docs_server"
    by (simp add: get_mcp_server_by_id_def two_servers_eq get_registry_def dict_union_def
        dict_setitem_def dict_values_def files_server_simps docs_server_simps)
  have d: "files_down (create_mcp_client files_server None) = Raised ''connection refused''"
    by (simp add: files_down_def files_server_simps)
  have e: "files_down (create_mcp_client docs_server None) = Returned [read_tool]"
    by (simp add: files_down_def docs_server_simps)
  have "fst (list_tools spec_utils no_restriction files_down () None two_servers)
          = Inr (map (prefixed_tool spec_utils docs_server) [read_tool])"
    using a b c d e by (rule list_tools_isolates_failing_upstream)
  then show ?thesis
    using b c d e
    by (simp add: get_allowed_mcp_servers_def no_restriction_def two_servers_eq get_registry_def
        dict_union_def dict_setitem_def dict_keys_def prefixed_tool_def spec_utils_def
        spec_add_server_prefix_to_tool_name_def marker_def read_tool_def docs_server_simps)
qed

section \<open>Routing a call to its server\<close>

lemma find_by_name_normalized:
  "find_by_name U m sname = Some s \<Longrightarrow>
   normalize_server_name U (name s) = normalize_server_name U sname"
  unfolding find_by_name_def by (auto simp: find_Some_iff)

lemma find_by_name_cong:
  "normalize_server_name U x = normalize_server_name U y \<Longrightarrow>
   find_by_name U m x = find_by_name U m y"
  by (simp add: find_by_name_def)

lemma resolve_by_prefix:
  assumes "get_server_name_prefix_tool_mcp U tname = (raw, p)"
    and "is_tool_name_prefixed U tname"
    and "find_by_name U m p = Some s"
    and "case map_of (tool_name_to_mcp_server_name_mapping m) tname of
           None \<Rightarrow> True
         | Some x \<Rightarrow> normalize_server_name U x = normalize_server_name U p"
  shows "get_mcp_server_from_tool_name U m tname = Some s"
proof (cases "map_of (tool_name_to_mcp_server_name_mapping m) tname")
  case None
  then show ?thesis using assms(1,2,3) by (simp add: get_mcp_server_from_tool_name_def)
next
  case (Some x)
  then have "normalize_server_name U x = normalize_server_name U p"
    using assms(4) by simp
  then have "find_by_name U m x = Some s"
    using assms(3) find_by_name_cong [of U x p m] by simp
  then show ?thesis using Some by (simp add: get_mcp_server_from_tool_name_def)
qed

text \<open>
  C7 (as amended). The claim, with the scenario it is drawn from, says that a call whose
  prefix names another registered server than the owner of the raw tool name fails with
  the prefix mismatch. \<open>call_tool\<close> never looks the raw name up: the server is the
  one the full name resolves to, the reverse-index entry of the full name or else the
  server named by the claimed prefix. For a tool name with a claimed prefix \<open>p\<close>: when
  the normalized \<open>p\<close> differs from the normalized name of the server that the full
  name resolves to, \<open>call_tool\<close> raises the prefix mismatch and calls no upstream.
  When \<open>p\<close> names a server of the registry, and the reverse index does not hold the
  full name under another server name, the call goes to the first server of the
  registry whose normalized name is that of \<open>p\<close>, with the tool name stripped of its
  prefix, whether or not that server owns the raw name.
\<close>
theorem call_tool_prefix_mismatch:
  "(get_server_name_prefix_tool_mcp U tname = (raw, p) \<and> p \<noteq> []
      \<and> get_mcp_server_from_tool_name U m tname = Some s
      \<and> normalize_server_name U p \<noteq> normalize_server_name U (name s) \<longrightarrow>
    call_tool U cct m tname targs hdr = Inl (PrefixMismatch (name s) p))
   \<and> (get_server_name_prefix_tool_mcp U tname = (raw, p) \<and> p \<noteq> []
      \<and> is_tool_name_prefixed U tname
      \<and> find_by_name U m p = Some s'
      \<and> (case map_of (tool_name_to_mcp_server_name_mapping m) tname of
            None \<Rightarrow> True
          | Some x \<Rightarrow> normalize_server_name U x = normalize_server_name U p) \<longrightarrow>
    normalize_server_name U (name s') = normalize_server_name U p
    \<and> call_tool U cct m tname targs hdr
        = cct (create_mcp_client s' hdr) \<lparr>params_name = raw, arguments = targs\<rparr>)"
proof (intro conjI impI)
  assume "get_server_name_prefix_tool_mcp U tname = (raw, p) \<and> p \<noteq> []
      \<and> get_mcp_server_from_tool_name U m tname = Some s
      \<and> normalize_server_name U p \<noteq> normalize_server_name U (name s)"
  then show "call_tool U cct m tname targs hdr = Inl (PrefixMismatch (name s) p)"
    by (simp add: call_tool_def)
next
  assume h: "get_server_name_prefix_tool_mcp U tname = (raw, p) \<and> p \<noteq> []
      \<and> is_tool_name_prefixed U tname
      \<and> find_by_name U m p = Some s'
      \<and> (case map_of (tool_name_to_mcp_server_name_mapping m) tname of
            None \<Rightarrow> True
          | Some x \<Rightarrow> normalize_server_name U x = normalize_server_name U p)"
  then show n: "normalize_server_name U (name s') = normalize_server_name U p"
    using find_by_name_normalized by blast
  have "get_mcp_server_from_tool_name U m tname = Some s'"
    using h resolve_by_prefix by blast
  then show "call_tool U cct m tname targs hdr
        = cct (create_mcp_client s' hdr) \<lparr>params_name = raw, arguments = targs\<rparr>"
    using h n by (simp add: call_tool_def)
qed

lemma read_write_listed_eq:
  "read_write_listed =
     \<lparr>registry = [(''s1'', files_server), (''s2'', docs_server)], config_mcp_servers = [],
      tool_name_to_mcp_server_name_mapping =
        [(''read'', ''files''), (''files.read'', ''files''),
         (''write'', ''docs''), (''docs.write'', ''docs'')]\<rparr>"
  by (simp add: read_write_listed_def list_tools_def get_allowed_mcp_servers_def
      no_restriction_def two_servers_eq get_registry_def dict_union_def dict_setitem_def
      dict_keys_def get_mcp_server_by_id_def dict_values_def files_server_simps
      docs_server_simps get_tools_from_server_def files_read_docs_write_def prefixed_tool_def
      spec_utils_def spec_add_server_prefix_to_tool_name_def marker_def read_tool_def
      write_tool_def)

lemma read_write_listed_resolve:
  "get_mcp_server_from_tool_name spec_utils read_write_listed ''docs.read'' = Some docs_server"
  by (simp add: get_mcp_server_from_tool_name_def find_by_name_def read_write_listed_eq
      get_registry_def dict_union_def dict_setitem_def dict_values_def files_server_simps
      docs_server_simps spec_normalize_examples spec_decompose_files_read)

text \<open>
  C7, counterexample: \<open>files\<close> lists \<open>read\<close>, \<open>docs\<close> lists \<open>write\<close>. The raw name
  \<open>read\<close> is owned by \<open>files\<close> alone, and the reverse index says so. The call of
  \<open>docs.read\<close> claims the prefix \<open>docs\<close>, another registered server: it raises no
  prefix mismatch and is sent to the client of \<open>docs\<close> with the name \<open>read\<close>.
\<close>
theorem call_tool_foreign_prefix_counterexample:
  "fst (list_tools spec_utils no_restriction files_read_docs_write () None two_servers)
     = Inr [\<lparr>tool_name = ''files.read'', tool_description = None, inputSchema = ''{}''\<rparr>,
            \<lparr>tool_name = ''docs.write'', tool_description = None, inputSchema = ''{}''\<rparr>]
   \<and> map_of (tool_name_to_mcp_server_name_mapping read_write_listed) ''read'' = Some ''files''
   \<and> map_of (tool_name_to_mcp_server_name_mapping read_write_listed) ''docs.read'' = None
   \<and> get_server_name_prefix_tool_mcp spec_utils ''docs.read'' = (''read'', ''docs'')
   \<and> normalize_server_name spec_utils ''docs'' \<noteq> normalize_server_name spec_utils ''files''
   \<and> call_tool spec_utils echo_call read_write_listed ''docs.read'' [] None
       = Inr (create_mcp_client docs_server None, \<lparr>params_name = ''read'', arguments = []\<rparr>)
   \<and> server_url (create_mcp_client docs_server None) = ''http://docs''"
proof -
  have listed: "fst (list_tools spec_utils no_restriction files_read_docs_write () None two_servers)
     = Inr [\<lparr>tool_name = ''files.read'', tool_description = None, inputSchema = ''{}''\<rparr>,
            \<lparr>tool_name = ''docs.write'', tool_description = None, inputSchema = ''{}''\<rparr>]"
    by (simp add: list_tools_def get_allowed_mcp_servers_def no_restriction_def
      two_servers_eq get_registry_def dict_union_def dict_setitem_def dict_keys_def
      get_mcp_server_by_id_def dict_values_def files_server_simps docs_server_simps
      get_tools_from_server_def files_read_docs_write_def prefixed_tool_def spec_utils_def
      spec_add_server_prefix_to_tool_name_def marker_def read_tool_def write_tool_def)
  have index: "map_of (tool_name_to_mcp_server_name_mapping read_write_listed) ''read'' = Some ''files''
      \<and> map_of (tool_name_to_mcp_server_name_mapping read_write_listed) ''docs.read'' = None"
    by (simp add: read_write_listed_eq)
  have call: "call_tool spec_utils echo_call read_write_listed ''docs.read'' [] None
       = Inr (create_mcp_client docs_server None, \<lparr>params_name = ''read'', arguments = []\<rparr>)"
    by (simp add: call_tool_def spec_decompose_files_read read_write_listed_resolve
        spec_normalize_examples docs_server_simps echo_call_def)
  show ?thesis
    using listed index call
    by (simp add: spec_decompose_files_read spec_normalize_examples docs_server_simps)
qed

text \<open>
  C7, witness. A server whose name \<open>a.b\<close> holds the marker lists the tool \<open>c\<close>; the
  name \<open>a.b.c\<close> claims the prefix \<open>a\<close> and resolves to \<open>a.b\<close>: mismatch. The servers
  \<open>files\<close> and \<open>docs\<close> both list \<open>read\<close>, the reverse index holds \<open>read\<close> under
  \<open>docs\<close>, and \<open>files.read\<close> is sent to \<open>files\<close>.
\<close>
theorem call_tool_prefix_mismatch_witness:
  "get_server_name_prefix_tool_mcp spec_utils ''a.b.c'' = (''b.c'', ''a'')
   \<and> get_mcp_server_from_tool_name spec_utils dotted_listed ''a.b.c'' = Some dotted_server
   \<and> normalize_server_name spec_utils ''a'' \<noteq> normalize_server_name spec_utils (name dotted_server)
   \<and> call_tool spec_utils echo_call dotted_listed ''a.b.c'' [] None
       = Inl (PrefixMismatch ''a.b'' ''a'')
   \<and> get_server_name_prefix_tool_mcp spec_utils ''files.read'' = (''read'', ''files'')
   \<and> is_tool_name_prefixed spec_utils ''files.read''
   \<and> find_by_name spec_utils two_servers_listed ''files'' = Some files_server
   \<and> map_of (tool_name_to_mcp_server_name_mapping two_servers_listed) ''read'' = Some ''docs''
   \<and> map_of (tool_name_to_mcp_server_name_mapping two_servers_listed) ''files.read''
       = Some ''files''
   \<and> call_tool spec_utils echo_call two_servers_listed ''files.read'' [] None
       = Inr (create_mcp_client files_server None, \<lparr>params_name = ''read'', arguments = []\<rparr>)"
proof -
  have a: "get_server_name_prefix_tool_mcp spec_utils ''a.b.c'' = (''b.c'', ''a'') \<and> ''a'' \<noteq> []
      \<and> get_mcp_server_from_tool_name spec_utils dotted_listed ''a.b.c'' = Some dotted_server
      \<and> normalize_server_name spec_utils ''a''
          \<noteq> normalize_server_name spec_utils (name dotted_server)"
    by (simp add: spec_decompose_files_read dotted_listed_resolve dotted_server_simps
        spec_normalize_examples)
  have c: "map_of (tool_name_to_mcp_server_name_mapping two_servers_listed) ''read'' = Some ''docs''
      \<and> map_of (tool_name_to_mcp_server_name_mapping two_servers_listed) ''files.read''
         = Some ''files''"
    by (simp add: two_servers_listed_eq)
  have b: "get_server_name_prefix_tool_mcp spec_utils ''files.read'' = (''read'', ''files'')
      \<and> ''files'' \<noteq> []
      \<and> is_tool_name_prefixed spec_utils ''files.read''
      \<and> find_by_name spec_utils two_servers_listed ''files'' = Some files_server
      \<and> (case map_of (tool_name_to_mcp_server_name_mapping two_servers_listed) ''files.read'' of
            None \<Rightarrow> True
          | Some x \<Rightarrow> normalize_server_name spec_utils x
                       = normalize_server_name spec_utils ''files'')"
    using c by (simp add: spec_decompose_files_read two_servers_listed_resolve spec_normalize_examples)
  show ?thesis
    using a b c
      call_tool_prefix_mismatch [where U = spec_utils and tname = "''a.b.c''" and raw = "''b.c''"
        and p = "''a''" and m = dotted_listed and s = dotted_server and cct = echo_call
        and targs = "[]" and hdr = None]
      call_tool_prefix_mismatch [where U = spec_utils and tname = "''files.read''"
        and raw = "''read''" and p = "''files''" and m = two_servers_listed and s' = files_server
        and cct = echo_call and targs = "[]" and hdr = None]
    by (simp add: dotted_server_simps echo_call_def)
qed

text \<open>
  C8. Whenever the name resolves to a server and the prefix check passes, \<open>call_tool\<close>
  is the answer of that server's client to a request that carries the tool name
  without its prefix, with the arguments as they were given; the answer is returned as
  it is.
\<close>
theorem call_tool_uses_raw_name:
  assumes "get_mcp_server_from_tool_name U m tname = Some s"
    and "snd (get_server_name_prefix_tool_mcp U tname) = []
         \<or> normalize_server_name U (snd (get_server_name_prefix_tool_mcp U tname))
             = normalize_server_name U (name s)"
  shows "call_tool U cct m tname targs hdr
           = cct (create_mcp_client s hdr)
               \<lparr>params_name = fst (get_server_name_prefix_tool_mcp U tname), arguments = targs\<rparr>"
  using assms by (auto simp: call_tool_def split: prod.splits)

text \<open>
  C8, witness: after one listing the catalog holds \<open>files.read\<close>; the call of
  \<open>files.read\<close> reaches the client of \<open>files\<close> with the name \<open>read\<close>.
\<close>
theorem call_tool_uses_raw_name_witness:
  "fst (list_tools spec_utils no_restriction all_list_read () None two_servers)
     = Inr [\<lparr>tool_name = ''files.read'', tool_description = None, inputSchema = ''{}''\<rparr>,
            \<lparr>tool_name = ''docs.read'', tool_description = None, inputSchema = ''{}''\<rparr>]
   \<and> get_mcp_server_from_tool_name spec_utils two_servers_listed ''files.read''
       = Some files_server
   \<and> name files_server = ''files''
   \<and> get_server_name_prefix_tool_mcp spec_utils ''files.read'' = (''read'', ''files'')
   \<and> call_tool spec_utils echo_call two_servers_listed ''files.read'' [(''path'', ''/tmp/x'')] None
       = Inr (create_mcp_client files_server None,
              \<lparr>params_name = ''read'', arguments = [(''path'', ''/tmp/x'')]\<rparr>)
   \<and> server_url (create_mcp_client files_server None) = ''http://files''"
proof -
  have listed: "fst (list_tools spec_utils no_restriction all_list_read () None two_servers)
     = Inr [\<lparr>tool_name = ''files.read'', tool_description = None, inputSchema = ''{}''\<rparr>,
            \<lparr>tool_name = ''docs.read'', tool_description = None, inputSchema = ''{}''\<rparr>]"
    by (simp add: list_tools_def get_allowed_mcp_servers_def no_restriction_def
      two_servers_eq get_registry_def dict_union_def dict_setitem_def dict_keys_def
      get_mcp_server_by_id_def dict_values_def files_server_simps docs_server_simps
      get_tools_from_server_def all_list_read_def prefixed_tool_def spec_utils_def
      spec_add_server_prefix_to_tool_name_def marker_def read_tool_def)
  have a: "get_mcp_server_from_tool_name spec_utils two_servers_listed ''files.read''
             = Some files_server"
    by (rule two_servers_listed_resolve)
  have b: "snd (get_server_name_prefix_tool_mcp spec_utils ''files.read'') = []
         \<or> normalize_server_name spec_utils (snd (get_server_name_prefix_tool_mcp spec_utils ''files.read''))
             = normalize_server_name spec_utils (name files_server)"
    by (simp add: spec_decompose_files_read files_server_simps)
  show ?thesis
    using listed a call_tool_uses_raw_name [OF a b, of echo_call "[(''path'', ''/tmp/x'')]" None]
    by (simp add: spec_decompose_files_read files_server_simps echo_call_def)
qed

section \<open>The partitions stay dictionaries\<close>

text \<open>Every operation of the manager keeps the keys of each partition distinct, which
  is what the statement on the union assumes of the dynamic partition.\<close>

lemma manager_ok_init: "manager_ok MCPServerManager_init"
  by (simp add: manager_ok_def MCPServerManager_init_def pydict_ok_def)

lemma manager_ok_add_update_server:
  "manager_ok m \<Longrightarrow> manager_ok (add_update_server jl r m)"
  by (simp add: manager_ok_def add_update_server_def pydict_ok_setitem)

lemma manager_ok_load_servers_from_config:
  "manager_ok m \<Longrightarrow> manager_ok (snd (load_servers_from_config U cfg m))"
proof (induction cfg arbitrary: m)
  case Nil
  then show ?case by simp
next
  case (Cons kv cfg)
  obtain sname c where kv: "kv = (sname, c)" by (cases kv)
  show ?case
  proof (cases "validate_mcp_server_name U sname")
    case None
    have "manager_ok (m\<lparr>config_mcp_servers :=
             dict_setitem (server_id (config_server sname c)) (config_server sname c)
               (config_mcp_servers m)\<rparr>)"
      using Cons.prems by (simp add: manager_ok_def pydict_ok_setitem)
    then show ?thesis using None kv Cons.IH by simp
  next
    case (Some e)
    then show ?thesis using kv Cons.prems by simp
  qed
qed

lemma manager_ok_remove_server:
  assumes "manager_ok m" and "remove_server r m = Inr (m', l)"
  shows "manager_ok m'"
proof -
  have del: "\<And>k d'. dict_delitem k (registry m) = Inr d' \<Longrightarrow> manager_ok (m\<lparr>registry := d'\<rparr>)"
    using assms(1) pydict_ok_delitem by (simp add: manager_ok_def) blast
  show ?thesis
  proof (cases "opt_in_registry (db_alias r) m")
    case True
    then show ?thesis
      using assms(2) del [of "the (db_alias r)"]
      by (cases "dict_delitem (the (db_alias r)) (registry m)") (simp_all add: remove_server_def)
  next
    case False
    show ?thesis
    proof (cases "dict_contains (db_server_id r) (get_registry m)")
      case True
      then show ?thesis
        using False assms(2) del [of "db_server_id r"]
        by (cases "dict_delitem (db_server_id r) (registry m)") (simp_all add: remove_server_def)
    next
      case no: False
      then show ?thesis using False assms by (simp add: remove_server_def)
    qed
  qed
qed

lemma manager_ok_get_tools_from_server:
  "manager_ok m \<Longrightarrow> manager_ok (snd (get_tools_from_server U lt server hdr m))"
proof -
  assume ok: "manager_ok m"
  obtain r m' where step: "get_tools_from_server U lt server hdr m = (r, m')"
    by (cases "get_tools_from_server U lt server hdr m")
  from get_tools_from_server_partitions [OF step] ok
  have "manager_ok m'" by (simp add: manager_ok_def)
  then show ?thesis using step by simp
qed

end
